theory Spec2Isabelle
  imports Complex_Main
begin

section \<open>PDF export: slicing the captured canvas into pages\<close>

text \<open>
  The model follows \<^verbatim>\<open>exportToPDF\<close> in \<^verbatim>\<open>src/components/ExportControls.tsx\<close>.
  JavaScript numbers are idealised as exact rationals (\<^typ>\<open>rat\<close>): the rounding of IEEE
  doubles is outside this embedding, and every statement below is one of exact
  arithmetic. The loop counter \<^verbatim>\<open>i\<close> only ever holds \<open>0, 1, 2, ...\<close> and is a \<^typ>\<open>nat\<close>.
\<close>

text \<open>
  What one loop iteration hands to the collaborators: \<^verbatim>\<open>drawImage\<close> crops the master
  canvas at \<open>sourceY\<close> over \<open>sourceHeight\<close> rows, and \<^verbatim>\<open>addImage\<close> places the crop on
  the current page with height \<open>slicePdfHeight\<close>.
\<close>

record slice =
  sourceY :: rat
  sourceHeight :: rat
  slicePdfHeight :: rat

text \<open>
  The jsPDF document, as far as the export drives it: the list of its pages in order,
  each with the images placed on it; the last page is the current one. A fresh document
  has one empty page.
\<close>

type_synonym pdf = "slice list list"

definition newPdf :: pdf where
  "newPdf = [[]]"

definition addPage :: "pdf \<Rightarrow> pdf" where
  "addPage pdf = pdf @ [[]]"

definition addImage :: "slice \<Rightarrow> pdf \<Rightarrow> pdf" where
  "addImage s pdf = butlast pdf @ [last pdf @ [s]]"

datatype exn = CaptureRejected | EncoderError

text \<open>
  The \<^verbatim>\<open>for\<close> loop of lines 105--133. \<open>throws i\<close> says whether a collaborator
  (\<^verbatim>\<open>drawImage\<close>, \<^verbatim>\<open>toDataURL\<close>, \<^verbatim>\<open>addImage\<close>) throws in iteration \<open>i\<close>; an exception
  leaves the loop at once. \<^verbatim>\<open>addPage\<close> comes before the \<open>sourceHeight \<le> 0\<close> check, as in
  the source. The division by \<open>canvasWidth\<close> is only reached with a positive
  \<open>sourceHeight\<close>, which in the export (where \<open>pageContentPx\<close> is a multiple of
  \<open>canvasWidth\<close>) means \<open>canvasWidth \<noteq> 0\<close>.
\<close>

function pageLoop ::
  "(nat \<Rightarrow> bool) \<Rightarrow> rat \<Rightarrow> rat \<Rightarrow> rat \<Rightarrow> rat \<Rightarrow> int \<Rightarrow> nat \<Rightarrow> pdf \<Rightarrow> exn + pdf" where
  "pageLoop throws canvasWidth canvasHeight contentWidth pageContentPx numPages i pdf =
     (if int i < numPages then
        let pdf1 = (if i > 0 then addPage pdf else pdf);
            sY = of_nat i * pageContentPx;
            sH = min pageContentPx (canvasHeight - sY)
        in if sH \<le> 0 then
             pageLoop throws canvasWidth canvasHeight contentWidth pageContentPx numPages (i + 1) pdf1
           else if throws i then Inl EncoderError
           else
             let sliceH = (sH * contentWidth) / canvasWidth
             in pageLoop throws canvasWidth canvasHeight contentWidth pageContentPx numPages (i + 1)
                  (addImage \<lparr>sourceY = sY, sourceHeight = sH, slicePdfHeight = sliceH\<rparr> pdf1)
      else Inr pdf)"
  by pat_completeness auto
termination
  by (relation "measure (\<lambda>(throws, cw, ch, cow, p, n, i, pdf). nat (n - int i))") auto

subsection \<open>The resume data\<close>

text \<open>
  The resume data read by the exporters. The type declarations live in \<^verbatim>\<open>../types\<close>;
  the records list the fields the exporters read, all of them strings. Field names carry
  a prefix, since record fields share one name space.
\<close>

record personalInfo =
  pi_name :: string
  pi_title :: string
  pi_email :: string
  pi_phone :: string
  pi_website :: string

record experience =
  exp_title :: string
  exp_company :: string
  exp_startDate :: string
  exp_endDate :: string
  exp_description :: string

record education =
  edu_degree :: string
  edu_school :: string
  edu_location :: string
  edu_graduationDate :: string

record skill =
  skill_name :: string

record project =
  proj_name :: string
  proj_description :: string
  proj_link :: string

record customSection =
  sec_title :: string
  sec_content :: string

record resumeData =
  personalInfo :: personalInfo
  summary :: string
  experience :: "experience list"
  education :: "education list"
  skills :: "skill list"
  projects :: "project list"
  customSections :: "customSection list"

subsection \<open>The environment of the PDF export\<close>

text \<open>
  The captured raster: \<^verbatim>\<open>canvas.width\<close> and \<^verbatim>\<open>canvas.height\<close> are unsigned integers.
\<close>

record canvas =
  width :: nat
  height :: nat

text \<open>
  What the collaborators answer during one export: the outcome of \<^verbatim>\<open>html2canvas\<close>
  (\<open>None\<close>: the promise is rejected), the page size jsPDF reports for a portrait A4
  page in points, whether \<^verbatim>\<open>getContext('2d')\<close> yields a context, and in which loop
  iterations a collaborator throws. The globals \<^verbatim>\<open>window.jspdf\<close> and \<^verbatim>\<open>html2canvas\<close>
  are taken to be loaded, as the host page provides them.
\<close>

record env =
  capture :: "canvas option"
  pdfWidth :: rat
  pdfHeight :: rat
  context2d :: bool
  throws :: "nat \<Rightarrow> bool"

text \<open>
  The part of the page the export touches: the two elements looked up by id, the parent
  relation, the \<^verbatim>\<open>dark\<close> class of the root element, and the inline style of every
  element (a map from property to value, which is what \<^verbatim>\<open>style.cssText\<close> reads and
  writes as a whole). Elements are addresses, so two lookups may yield the same element.
\<close>

type_synonym elem = nat
type_synonym cssText = "string \<rightharpoonup> string"

record dom =
  resumeContent :: "elem option"
  resumePreview :: "elem option"
  parentElement :: "elem \<Rightarrow> elem option"
  dark :: bool
  styles :: "elem \<Rightarrow> cssText"

definition setStyle :: "elem \<Rightarrow> string \<Rightarrow> string \<Rightarrow> dom \<Rightarrow> dom" where
  "setStyle el prop v d = d\<lparr>styles := (styles d)(el := (styles d el)(prop \<mapsto> v))\<rparr>"

definition setCssText :: "elem \<Rightarrow> cssText \<Rightarrow> dom \<Rightarrow> dom" where
  "setCssText el css d = d\<lparr>styles := (styles d)(el := css)\<rparr>"

text \<open>What an export does that can be observed from outside, in order.\<close>

datatype event =
    ConsoleError string
  | Alert string
  | Html2canvas
  | Save string pdf

definition MARGIN :: rat where
  "MARGIN = 30"

text \<open>
  The \<^verbatim>\<open>then\<close> callback (lines 73--136). It returns normally with the events it
  caused (\<open>Inr\<close>), or throws (\<open>Inl\<close>), or never returns (\<open>None\<close>).

  Division is JavaScript's, not HOL's, in one case only. When
  \<open>pageContentHeightInCanvasPixels\<close> is a positive zero (the product
  \<open>pageContentHeight * canvasWidth\<close> is zero and has the sign of \<open>contentWidth\<close>), a
  positive \<open>canvasHeight\<close> makes \<open>numPages\<close> \<^verbatim>\<open>Infinity\<close>: every iteration adds a page,
  finds \<open>sourceHeight = 0\<close> and continues, so the loop never ends. In the other
  degenerate cases (a negative zero, \<open>contentWidth = 0\<close>, or \<open>canvasHeight = 0\<close>)
  \<open>numPages\<close> is \<^verbatim>\<open>-Infinity\<close>, \<^verbatim>\<open>NaN\<close> or zero and the loop body does not run, which
  is also what HOL's \<open>x / 0 = 0\<close> gives.
\<close>

definition onCaptured :: "resumeData \<Rightarrow> env \<Rightarrow> canvas \<Rightarrow> (exn + event list) option" where
  "onCaptured rd e c =
     (let pdf = newPdf;
          contentWidth = pdfWidth e - MARGIN * 2;
          pageContentHeight = pdfHeight e - MARGIN * 2;
          canvasWidth = of_nat (width c);
          canvasHeight = of_nat (height c);
          pageContentHeightInCanvasPixels = (pageContentHeight * canvasWidth) / contentWidth;
          numPages = \<lceil>canvasHeight / pageContentHeightInCanvasPixels\<rceil>
      in if \<not> context2d e then
           Some (Inr [ConsoleError ''Could not get 2d context from canvas''])
         else if 0 < canvasHeight \<and> pageContentHeightInCanvasPixels = 0
                 \<and> (0 \<le> pageContentHeight \<and> 0 < contentWidth
                      \<or> pageContentHeight < 0 \<and> contentWidth < 0) then
           None
         else
           (case pageLoop (throws e) canvasWidth canvasHeight contentWidth
                   pageContentHeightInCanvasPixels numPages 0 pdf of
              Inl x \<Rightarrow> Some (Inl x)
            | Inr pdf' \<Rightarrow> Some (Inr [Save (pi_name (personalInfo rd) @ ''_Resume.pdf'') pdf'])))"

text \<open>
  \<^verbatim>\<open>exportToPDF\<close> with its timer callback and promise chain run to the end: the page as
  the export leaves it and the events in order, or \<open>None\<close> when the callback never
  returns. \<^verbatim>\<open>catch\<close> handles a rejected capture and an exception of the \<^verbatim>\<open>then\<close>
  callback alike; \<^verbatim>\<open>finally\<close> runs after either.
\<close>

definition exportToPDF :: "resumeData \<Rightarrow> env \<Rightarrow> dom \<Rightarrow> (dom \<times> event list) option" where
  "exportToPDF rd e d =
     (case resumeContent d of
        None \<Rightarrow>
          Some (d, [ConsoleError ''Resume content element not found for PDF export.'',
                    Alert ''An error occurred while exporting to PDF.''])
      | Some resumeContentElement \<Rightarrow>
          let isDarkMode = dark d;
              d1 = (if isDarkMode then d\<lparr>dark := False\<rparr> else d)
          in (case (resumePreview d1, parentElement d1 resumeContentElement) of
                (Some resumePreviewElement, Some aspectWrapper) \<Rightarrow>
                  let originalPreviewStyle = styles d1 resumePreviewElement;
                      originalWrapperStyle = styles d1 aspectWrapper;
                      originalContentStyle = styles d1 resumeContentElement;
                      d2 = setStyle resumePreviewElement ''overflow'' ''visible'' d1;
                      d3 = setStyle resumePreviewElement ''height'' ''auto'' d2;
                      d4 = setStyle aspectWrapper ''height'' ''auto'' d3;
                      d5 = setStyle aspectWrapper ''paddingTop'' ''0'' d4;
                      d6 = setStyle aspectWrapper ''aspectRatio'' ''auto'' d5;
                      d7 = setStyle resumeContentElement ''position'' ''static'' d6;
                      d8 = setStyle resumeContentElement ''height'' ''auto'' d7;
                      settled = (case capture e of
                                   None \<Rightarrow> Some (Inl CaptureRejected)
                                 | Some c \<Rightarrow> onCaptured rd e c)
                  in (case settled of
                        None \<Rightarrow> None
                      | Some r \<Rightarrow>
                          let evs = (case r of
                                       Inr evs \<Rightarrow> evs
                                     | Inl err \<Rightarrow>
                                         [ConsoleError ''Failed to export to PDF:'',
                                          Alert ''An error occurred while exporting to PDF. Please try again.'']);
                              d9 = setCssText resumePreviewElement originalPreviewStyle d8;
                              d10 = setCssText aspectWrapper originalWrapperStyle d9;
                              d11 = setCssText resumeContentElement originalContentStyle d10;
                              d12 = (if isDarkMode then d11\<lparr>dark := True\<rparr> else d11)
                          in Some (d12, Html2canvas # evs))
              | _ \<Rightarrow> Some ((if isDarkMode then d1\<lparr>dark := True\<rparr> else d1), [])))"

section \<open>DOCX export: assembling the paragraphs\<close>

subsection \<open>String helpers\<close>

text \<open>
  Strings are lists of code units; a \<^typ>\<open>char\<close> stands for a code unit below \<open>0x100\<close>.
  \<^verbatim>\<open>String.prototype.split\<close> with a one-character separator: the pieces between the
  separators, one piece more than there are separators.
\<close>

fun split :: "char \<Rightarrow> string \<Rightarrow> string list" where
  "split sep [] = [[]]"
| "split sep (c # cs) =
     (if c = sep then [] # split sep cs
      else (case split sep cs of
              [] \<Rightarrow> [[c]]
            | l # ls \<Rightarrow> (c # l) # ls))"

text \<open>
  \<^verbatim>\<open>String.prototype.trim\<close> removes white space and line terminators from both ends;
  below \<open>0x100\<close> these are TAB, LF, VT, FF, CR, SP and NBSP.
\<close>

definition isWhiteSpace :: "char \<Rightarrow> bool" where
  "isWhiteSpace c \<longleftrightarrow>
     c = CHR 0x09 \<or> c = CHR 0x0A \<or> c = CHR 0x0B \<or> c = CHR 0x0C \<or> c = CHR 0x0D
     \<or> c = CHR 0x20 \<or> c = CHR 0xA0"

definition trim :: "string \<Rightarrow> string" where
  "trim s = rev (dropWhile isWhiteSpace (rev (dropWhile isWhiteSpace s)))"

text \<open>
  \<^verbatim>\<open>d.replace(/^- /, '')\<close>: the pattern is anchored at the start of the string and has
  no \<^verbatim>\<open>g\<close> flag, so at most one match, the first two code units, is removed.
\<close>

fun replaceLeadingDash :: "string \<Rightarrow> string" where
  "replaceLeadingDash (CHR ''-'' # CHR '' '' # rest) = rest"
| "replaceLeadingDash s = s"

text \<open>\<^verbatim>\<open>Array.prototype.join\<close> and \<^verbatim>\<open>Array.prototype.flatMap\<close>.\<close>

fun join :: "string \<Rightarrow> string list \<Rightarrow> string" where
  "join sep [] = []"
| "join sep [x] = x"
| "join sep (x # y # ys) = x @ sep @ join sep (y # ys)"

definition flatMap :: "('a \<Rightarrow> 'b list) \<Rightarrow> 'a list \<Rightarrow> 'b list" where
  "flatMap f xs = concat (map f xs)"

subsection \<open>Paragraphs\<close>

datatype headingLevel = TITLE | HEADING_1 | HEADING_2

text \<open>
  The options a \<^verbatim>\<open>Paragraph\<close> is built from: its text, and where given a heading level,
  a named style and a bullet level.
\<close>

record docxParagraph =
  p_text :: string
  p_heading :: "headingLevel option"
  p_style :: "string option"
  p_bullet :: "nat option"

definition Paragraph :: "string \<Rightarrow> docxParagraph" where
  "Paragraph t = \<lparr>p_text = t, p_heading = None, p_style = None, p_bullet = None\<rparr>"

definition headingParagraph :: "string \<Rightarrow> headingLevel \<Rightarrow> docxParagraph" where
  "headingParagraph t h = (Paragraph t)\<lparr>p_heading := Some h\<rparr>"

definition styledParagraph :: "string \<Rightarrow> string \<Rightarrow> docxParagraph" where
  "styledParagraph t st = (Paragraph t)\<lparr>p_style := Some st\<rparr>"

definition bulletParagraph :: "string \<Rightarrow> nat \<Rightarrow> docxParagraph" where
  "bulletParagraph t level = (Paragraph t)\<lparr>p_bullet := Some level\<rparr>"

subsection \<open>The children of the document's one section (lines 159--208)\<close>

text \<open>The bullets of one experience entry (line 176).\<close>

definition descriptionBullets :: "string \<Rightarrow> docxParagraph list" where
  "descriptionBullets description =
     map (\<lambda>d. bulletParagraph (replaceLeadingDash d) 0)
       (filter (\<lambda>l. trim l \<noteq> '''') (split CHR 0x0A description))"

definition experienceBlocks :: "experience \<Rightarrow> docxParagraph list" where
  "experienceBlocks ex =
     [styledParagraph (exp_title ex @ '' - '' @ exp_company ex) ''strong'',
      Paragraph (exp_startDate ex @ '' - '' @ exp_endDate ex)]
     @ descriptionBullets (exp_description ex)
     @ [Paragraph '''']"

definition educationBlocks :: "education \<Rightarrow> docxParagraph list" where
  "educationBlocks edu =
     [styledParagraph (edu_degree edu @ '', '' @ edu_school edu) ''strong'',
      Paragraph (edu_location edu @ '' | '' @ edu_graduationDate edu),
      Paragraph '''']"

definition projectBlocks :: "project \<Rightarrow> docxParagraph list" where
  "projectBlocks proj =
     [styledParagraph (proj_name proj) ''strong'',
      Paragraph (proj_description proj),
      Paragraph (proj_link proj),
      Paragraph '''']"

definition customSectionBlocks :: "customSection \<Rightarrow> docxParagraph list" where
  "customSectionBlocks sec =
     [headingParagraph (sec_title sec) HEADING_1,
      Paragraph (sec_content sec),
      Paragraph '''']"

definition children :: "resumeData \<Rightarrow> docxParagraph list" where
  "children rd =
     [headingParagraph (pi_name (personalInfo rd)) TITLE,
      headingParagraph (pi_title (personalInfo rd)) HEADING_2,
      Paragraph (''Email: '' @ pi_email (personalInfo rd) @ '' | Phone: ''
                 @ pi_phone (personalInfo rd) @ '' | Website: '' @ pi_website (personalInfo rd)),
      Paragraph '''',
      headingParagraph ''Summary'' HEADING_1,
      Paragraph (summary rd),
      Paragraph '''',
      headingParagraph ''Experience'' HEADING_1]
     @ flatMap experienceBlocks (experience rd)
     @ [headingParagraph ''Education'' HEADING_1]
     @ flatMap educationBlocks (education rd)
     @ [headingParagraph ''Skills'' HEADING_1,
        Paragraph (join '', '' (map skill_name (skills rd))),
        Paragraph '''',
        headingParagraph ''Projects'' HEADING_1]
     @ flatMap projectBlocks (projects rd)
     @ flatMap customSectionBlocks (customSections rd)"

text \<open>
  \<^verbatim>\<open>exportToDOCX\<close>: the document has one section holding these children, and is saved
  under the person's name.
\<close>

definition exportToDOCX :: "resumeData \<Rightarrow> string \<times> docxParagraph list list" where
  "exportToDOCX rd = (pi_name (personalInfo rd) @ ''_Resume.docx'', [children rd])"

section \<open>Notions used to state the properties\<close>

text \<open>
  The slice the loop is expected to hand over in iteration \<open>i\<close>, and what it means for a
  sequence of slices to tile the canvas from row \<open>y\<close> downwards: each starts where the one
  before ended and has positive height.
\<close>

definition sliceAt :: "rat \<Rightarrow> rat \<Rightarrow> rat \<Rightarrow> rat \<Rightarrow> nat \<Rightarrow> slice" where
  "sliceAt cw ch cow p i =
     \<lparr>sourceY = of_nat i * p,
      sourceHeight = min p (ch - of_nat i * p),
      slicePdfHeight = (min p (ch - of_nat i * p) * cow) / cw\<rparr>"








section \<open>Sample inputs\<close>

text \<open>
  A portrait A4 page in points as jsPDF reports it, a captured canvas, and a resume whose
  arrays are all empty.
\<close>

definition a4Env :: env where
  "a4Env = \<lparr>capture = Some \<lparr>width = 1200, height = 4000\<rparr>,
            pdfWidth = 59528 / 100, pdfHeight = 84189 / 100,
            context2d = True, throws = (\<lambda>i. False)\<rparr>"


definition emptyResume :: resumeData where
  "emptyResume =
     \<lparr>personalInfo = \<lparr>pi_name = ''Ada'', pi_title = ''Engineer'', pi_email = ''ada@example.org'',
                       pi_phone = ''555'', pi_website = ''example.org''\<rparr>,
      summary = ''Builds engines.'',
      experience = [], education = [], skills = [], projects = [], customSections = []\<rparr>"


text \<open>
  A page in dark mode where the content element 2 lies in the aspect wrapper 1 inside the
  preview container 0; the same page without the preview container and without the
  content element; an environment without a 2D context and one whose capture is rejected.
\<close>

definition sampleDom :: dom where
  "sampleDom =
     \<lparr>resumeContent = Some 2, resumePreview = Some 0,
      parentElement = (\<lambda>el. if el = 2 then Some 1 else if el = 1 then Some 0 else None),
      dark = True,
      styles = (\<lambda>el. if el = 1 then [''paddingTop'' \<mapsto> ''141.4%''] else Map.empty)\<rparr>"

definition domWithoutPreview :: dom where
  "domWithoutPreview = sampleDom\<lparr>resumePreview := None\<rparr>"

definition envWithoutContext :: env where
  "envWithoutContext = a4Env\<lparr>context2d := False\<rparr>"

definition envCaptureRejected :: env where
  "envCaptureRejected = a4Env\<lparr>capture := None\<rparr>"

definition domWithoutContent :: dom where
  "domWithoutContent = sampleDom\<lparr>resumeContent := None\<rparr>"

section \<open>The pagination loop\<close>

declare pageLoop.simps [simp del]

lemma addImage_addPage: "addImage s (addPage pdf) = pdf @ [[s]]"
  by (simp add: addImage_def addPage_def)

lemma pageLoop_tail:
  assumes "\<And>j. i \<le> j \<Longrightarrow> int j < n \<Longrightarrow> 0 < min p (ch - of_nat j * p) \<and> \<not> thr j"
    and "0 < i"
  shows "pageLoop thr cw ch cow p n i pdf = Inr (pdf @ map (\<lambda>j. [sliceAt cw ch cow p j]) [i..<nat n])"
  using assms
proof (induction thr cw ch cow p n i pdf rule: pageLoop.induct)
  case (1 thr cw ch cow p n i pdf)
  show ?case
  proof (cases "int i < n")
    case False
    then show ?thesis by (simp add: pageLoop.simps)
  next
    case True
    have pos: "0 < min p (ch - of_nat i * p)" and nt: "\<not> thr i"
      using "1.prems"(1)[of i] True by auto
    have ih: "pageLoop thr cw ch cow p n (i + 1) (pdf @ [[sliceAt cw ch cow p i]])
          = Inr ((pdf @ [[sliceAt cw ch cow p i]]) @ map (\<lambda>j. [sliceAt cw ch cow p j]) [i + 1..<nat n])"
      using "1.IH"(2)[OF True refl refl refl _ nt refl] pos "1.prems" 
      by (simp add: addImage_addPage sliceAt_def not_le)
    have up: "[i..<nat n] = i # [i + 1..<nat n]"
      using True by (simp add: upt_conv_Cons)
    have step: "pageLoop thr cw ch cow p n i pdf
          = pageLoop thr cw ch cow p n (i + 1) (pdf @ [[sliceAt cw ch cow p i]])"
      using True pos nt "1.prems"(2)
      by (subst pageLoop.simps) (auto simp add: Let_def addImage_addPage sliceAt_def min_le_iff_disj)
    show ?thesis
      unfolding step ih up by simp
  qed
qed

lemma pageLoop_from_start:
  assumes ok: "\<And>j. int j < n \<Longrightarrow> 0 < min p (ch - of_nat j * p) \<and> \<not> thr j"
    and n: "0 < n"
  shows "pageLoop thr cw ch cow p n 0 newPdf = Inr (map (\<lambda>j. [sliceAt cw ch cow p j]) [0..<nat n])"
proof -
  have pos: "0 < min p (ch - of_nat 0 * p)" and nt: "\<not> thr 0"
    using ok[of 0] n by auto
  have step: "pageLoop thr cw ch cow p n 0 newPdf
        = pageLoop thr cw ch cow p n 1 [[sliceAt cw ch cow p 0]]"
    using n pos nt
    by (subst pageLoop.simps) (auto simp add: Let_def addImage_def newPdf_def sliceAt_def min_le_iff_disj)
  have tail: "pageLoop thr cw ch cow p n 1 [[sliceAt cw ch cow p 0]]
        = Inr ([[sliceAt cw ch cow p 0]] @ map (\<lambda>j. [sliceAt cw ch cow p j]) [1..<nat n])"
    by (rule pageLoop_tail) (use ok in auto)
  have up: "[0..<nat n] = 0 # [1..<nat n]"
    using n by (simp add: upt_conv_Cons)
  show ?thesis unfolding step tail up by simp
qed

text \<open>Arithmetic of the page count.\<close>

lemma numPages_pos:
  fixes ch p :: rat
  assumes "0 < ch" "0 < p"
  shows "0 < \<lceil>ch / p\<rceil>"
  using assms by (simp add: zero_less_ceiling)

lemma sourceY_below_height:
  fixes ch p :: rat
  assumes p: "0 < p" and j: "int j < \<lceil>ch / p\<rceil>"
  shows "of_nat j * p < ch"
proof -
  have "of_int (int j) < ch / p" using j by (simp add: less_ceiling_iff)
  then show ?thesis using p by (simp add: pos_less_divide_eq)
qed

lemma sourceHeight_pos:
  fixes ch p :: rat
  assumes p: "0 < p" and j: "int j < \<lceil>ch / p\<rceil>"
  shows "0 < min p (ch - of_nat j * p)"
  using sourceY_below_height[OF p j] p by simp









lemma pageLoop_exact:
  fixes ch p :: rat
  assumes ch: "0 < ch" and p: "0 < p" and thr: "\<And>i. \<not> thr i"
  shows "pageLoop thr cw ch cow p \<lceil>ch / p\<rceil> 0 newPdf
         = Inr (map (\<lambda>j. [sliceAt cw ch cow p j]) [0..<nat \<lceil>ch / p\<rceil>])"
  by (rule pageLoop_from_start)
     (simp_all only: sourceHeight_pos[OF p] numPages_pos[OF ch p] thr simp_thms)




text \<open>
  Claim C10. In exact arithmetic, for positive \<open>canvasHeight\<close> and \<open>pageContentPx\<close>, every
  index \<open>i\<close> below \<open>numPages\<close> has \<open>sourceY = i * pageContentPx < canvasHeight\<close> and a
  positive \<open>sourceHeight\<close>, so the skip branch is never taken: the document the loop
  returns has one page per index, and page \<open>i\<close> holds exactly the slice of index \<open>i\<close>;
  no page is left without an image.
\<close>

theorem skip_branch_unreachable:
  fixes canvasHeight pageContentPx :: rat
  assumes "0 < canvasHeight" and "0 < pageContentPx"
  shows "(\<forall>i. int i < \<lceil>canvasHeight / pageContentPx\<rceil> \<longrightarrow>
            of_nat i * pageContentPx < canvasHeight
            \<and> 0 < min pageContentPx (canvasHeight - of_nat i * pageContentPx))
         \<and> pageLoop (\<lambda>i. False) canvasWidth canvasHeight contentWidth pageContentPx
                 \<lceil>canvasHeight / pageContentPx\<rceil> 0 newPdf
             = Inr (map (\<lambda>i. [sliceAt canvasWidth canvasHeight contentWidth pageContentPx i])
                     [0..<nat \<lceil>canvasHeight / pageContentPx\<rceil>])"
proof (intro conjI allI impI)
  fix i :: nat
  assume i: "int i < \<lceil>canvasHeight / pageContentPx\<rceil>"
  show "of_nat i * pageContentPx < canvasHeight"
    by (rule sourceY_below_height[OF assms(2) i])
  show "0 < min pageContentPx (canvasHeight - of_nat i * pageContentPx)"
    by (rule sourceHeight_pos[OF assms(2) i])
next
  show "pageLoop (\<lambda>i. False) canvasWidth canvasHeight contentWidth pageContentPx
                 \<lceil>canvasHeight / pageContentPx\<rceil> 0 newPdf
             = Inr (map (\<lambda>i. [sliceAt canvasWidth canvasHeight contentWidth pageContentPx i])
                     [0..<nat \<lceil>canvasHeight / pageContentPx\<rceil>])"
    by (rule pageLoop_exact[OF assms]) simp
qed

theorem skip_branch_unreachable_witness:
  "(0::rat) < 10 \<and> (0::rat) < 4
   \<and> of_nat 2 * 4 < (10::rat) \<and> 0 < min 4 ((10::rat) - of_nat 2 * 4)
   \<and> pageLoop (\<lambda>i. False) 1 10 1 4 \<lceil>(10::rat) / 4\<rceil> 0 newPdf
        = Inr (map (\<lambda>i. [sliceAt 1 10 1 4 i]) [0..<nat \<lceil>(10::rat) / 4\<rceil>])"
proof -
  have h1: "(0::rat) < 10" and h2: "(0::rat) < 4" by simp_all
  have i: "int 2 < \<lceil>(10::rat) / 4\<rceil>" by (simp add: less_ceiling_iff)
  note c = skip_branch_unreachable [OF h1 h2, of 1 1]
  from conjunct1 [OF c] i
  have "of_nat 2 * 4 < (10::rat) \<and> 0 < min 4 ((10::rat) - of_nat 2 * 4)" by blast
  with h1 h2 conjunct2 [OF c] show ?thesis by blast
qed




section \<open>The DOCX children\<close>

lemma split_not_Nil: "split sep s \<noteq> []"
  by (induction s) (auto split: list.splits)

lemma join_Cons: "ys \<noteq> [] \<Longrightarrow> join sep (x # ys) = x @ sep @ join sep ys"
  by (cases ys) auto

lemma join_split: "join [sep] (split sep s) = s"
proof (induction s)
  case Nil
  then show ?case by simp
next
  case (Cons c cs)
  show ?case
  proof (cases "c = sep")
    case True
    then show ?thesis using Cons by (simp add: join_Cons split_not_Nil)
  next
    case False
    obtain l ls where sp: "split sep cs = l # ls"
      using split_not_Nil[of sep cs] by (cases "split sep cs") auto
    have "join [sep] ((c # l) # ls) = c # join [sep] (l # ls)"
      by (cases ls) auto
    with False sp Cons show ?thesis by simp
  qed
qed

lemma split_no_sep: "l \<in> set (split sep s) \<Longrightarrow> sep \<notin> set l"
proof (induction s arbitrary: l)
  case Nil
  then show ?case by simp
next
  case (Cons c cs)
  then show ?case
    by (cases "split sep cs") (auto split: if_splits)
qed

lemma trim_Nil_iff: "trim l = [] \<longleftrightarrow> (\<forall>c\<in>set l. isWhiteSpace c)"
proof
  assume "trim l = []"
  then have "\<forall>c\<in>set (dropWhile isWhiteSpace l). isWhiteSpace c"
    by (simp add: trim_def)
  then have "dropWhile isWhiteSpace l = []"
    by (metis hd_dropWhile list.set_sel(1))
  then show "\<forall>c\<in>set l. isWhiteSpace c" by simp
next
  assume "\<forall>c\<in>set l. isWhiteSpace c"
  then have e: "dropWhile isWhiteSpace l = []" by simp
  show "trim l = []" unfolding trim_def e by simp
qed

lemma replaceLeadingDash_eq:
  "replaceLeadingDash l = (if take 2 l = ''- '' then drop 2 l else l)"
  by (induction l rule: replaceLeadingDash.induct) (auto simp: numeral_2_eq_2)

text \<open>
  Claim C4. The bullets of a description are its lines, split at the newlines, without the
  lines that hold white space only, each with one leading \<open>"- "\<close> removed when the line
  starts so and unchanged otherwise. The line \<open>"- Led a team"\<close> yields \<open>"Led a team"\<close>,
  the line \<open>"-- note"\<close> stays as it is, and dashes after the start are not touched.
\<close>

theorem description_bullets:
  "join [CHR 0x0A] (split CHR 0x0A description) = description
   \<and> (\<forall>l\<in>set (split CHR 0x0A description). CHR 0x0A \<notin> set l)
   \<and> map p_text (descriptionBullets description)
       = map (\<lambda>l. if take 2 l = ''- '' then drop 2 l else l)
           (filter (\<lambda>l. \<exists>c\<in>set l. \<not> isWhiteSpace c) (split CHR 0x0A description))
   \<and> (\<forall>b\<in>set (descriptionBullets description).
          p_bullet b = Some 0 \<and> p_heading b = None \<and> p_style b = None)
   \<and> map p_text (descriptionBullets ''- Led a team'') = [''Led a team'']
   \<and> map p_text (descriptionBullets ''-- note'') = [''-- note'']
   \<and> map p_text (descriptionBullets ''- - a - b'') = [''- a - b'']"
proof (intro conjI)
  show "join [CHR 0x0A] (split CHR 0x0A description) = description"
    by (rule join_split)
  show "\<forall>l\<in>set (split CHR 0x0A description). CHR 0x0A \<notin> set l"
    using split_no_sep by blast
  show "map p_text (descriptionBullets description)
       = map (\<lambda>l. if take 2 l = ''- '' then drop 2 l else l)
           (filter (\<lambda>l. \<exists>c\<in>set l. \<not> isWhiteSpace c) (split CHR 0x0A description))"
    by (simp add: descriptionBullets_def bulletParagraph_def Paragraph_def comp_def
        trim_Nil_iff replaceLeadingDash_eq)
  show "\<forall>b\<in>set (descriptionBullets description).
          p_bullet b = Some 0 \<and> p_heading b = None \<and> p_style b = None"
    by (auto simp: descriptionBullets_def bulletParagraph_def Paragraph_def)
  show "map p_text (descriptionBullets ''- Led a team'') = [''Led a team'']"
    by (simp add: descriptionBullets_def bulletParagraph_def Paragraph_def trim_def isWhiteSpace_def)
  show "map p_text (descriptionBullets ''-- note'') = [''-- note'']"
    by (simp add: descriptionBullets_def bulletParagraph_def Paragraph_def trim_def isWhiteSpace_def)
  show "map p_text (descriptionBullets ''- - a - b'') = [''- a - b'']"
    by (simp add: descriptionBullets_def bulletParagraph_def Paragraph_def trim_def isWhiteSpace_def)
qed

theorem description_bullets_witness:
  "map p_text (descriptionBullets (''- Led a team'' @ [CHR 0x0A] @ ''  '' @ [CHR 0x0A] @ ''-- note''))
     = [''Led a team'', ''-- note'']"
proof -
  have "map p_text (descriptionBullets (''- Led a team'' @ [CHR 0x0A] @ ''  '' @ [CHR 0x0A] @ ''-- note''))
       = map (\<lambda>l. if take 2 l = ''- '' then drop 2 l else l)
           (filter (\<lambda>l. \<exists>c\<in>set l. \<not> isWhiteSpace c)
              (split CHR 0x0A (''- Led a team'' @ [CHR 0x0A] @ ''  '' @ [CHR 0x0A] @ ''-- note'')))"
    using description_bullets [of "''- Led a team'' @ [CHR 0x0A] @ ''  '' @ [CHR 0x0A] @ ''-- note''"]
    by blast
  then show ?thesis by (simp add: isWhiteSpace_def)
qed





















section \<open>The PDF export as a whole\<close>

lemma setStyle_simps [simp]:
  "resumeContent (setStyle el prop v d) = resumeContent d"
  "resumePreview (setStyle el prop v d) = resumePreview d"
  "parentElement (setStyle el prop v d) = parentElement d"
  "dark (setStyle el prop v d) = dark d"
  by (simp_all add: setStyle_def)

lemma restore_styles:
  assumes "s8 = styles (setStyle rc p7 v7 (setStyle rc p6 v6 (setStyle aw p5 v5 (setStyle aw p4 v4
                  (setStyle aw p3 v3 (setStyle rp p2 v2 (setStyle rp p1 v1 d)))))))"
  shows "s8(rp := styles d rp, aw := styles d aw, rc := styles d rc) = styles d"
  unfolding assms by (auto simp: setStyle_def fun_eq_iff)

lemma exportToPDF_page_unchanged:
  assumes "exportToPDF rd e d = Some (d', evs)"
  shows "d' = d"
proof (cases "resumeContent d")
  case None
  with assms show ?thesis by (simp add: exportToPDF_def)
next
  case (Some rc)
  note rc = this
  let ?d1 = "if dark d then d\<lparr>dark := False\<rparr> else d"
  have d1: "resumePreview ?d1 = resumePreview d" "parentElement ?d1 = parentElement d"
    "styles ?d1 = styles d" by simp_all
  show ?thesis
  proof (cases "resumePreview d = None \<or> parentElement d rc = None")
    case True
    with assms rc show ?thesis
      by (auto simp: exportToPDF_def Let_def split: option.splits if_splits)
  next
    case False
    then obtain rp aw where rp: "resumePreview d = Some rp" and aw: "parentElement d rc = Some aw"
      by auto
    let ?d8 = "setStyle rc ''height'' ''auto'' (setStyle rc ''position'' ''static''
                 (setStyle aw ''aspectRatio'' ''auto'' (setStyle aw ''paddingTop'' ''0''
                 (setStyle aw ''height'' ''auto'' (setStyle rp ''height'' ''auto''
                 (setStyle rp ''overflow'' ''visible'' ?d1))))))"
    let ?d11 = "setCssText rc (styles ?d1 rc) (setCssText aw (styles ?d1 aw)
                 (setCssText rp (styles ?d1 rp) ?d8))"
    have d11: "?d11 = ?d1"
    proof -
      have "styles ?d11 = (styles ?d8)(rp := styles ?d1 rp, aw := styles ?d1 aw, rc := styles ?d1 rc)"
        by (simp add: setCssText_def)
      also have "\<dots> = styles ?d1" by (rule restore_styles) (rule refl)
      finally have "styles ?d11 = styles ?d1" .
      moreover have "resumeContent ?d11 = resumeContent ?d1" "resumePreview ?d11 = resumePreview ?d1"
        "parentElement ?d11 = parentElement ?d1" "dark ?d11 = dark ?d1"
        by (simp_all add: setCssText_def)
      ultimately show ?thesis by (intro dom.equality) simp_all
    qed
    have fin: "(if dark d then ?d11\<lparr>dark := True\<rparr> else ?d11) = d"
      unfolding d11 by simp
    from assms have "d' = (if dark d then ?d11\<lparr>dark := True\<rparr> else ?d11)"
      unfolding exportToPDF_def Let_def rc option.case d1 rp aw prod.case
      by (auto split: option.splits)
    with fin show ?thesis by simp
  qed
qed


lemma exportToPDF_with_anchors:
  assumes "resumeContent d = Some rc" and "resumePreview d = Some rp" and "parentElement d rc = Some aw"
  shows "map_option snd (exportToPDF rd e d) =
     (case (case capture e of None \<Rightarrow> Some (Inl CaptureRejected) | Some c \<Rightarrow> onCaptured rd e c) of
        None \<Rightarrow> None
      | Some (Inr evs) \<Rightarrow> Some (Html2canvas # evs)
      | Some (Inl err) \<Rightarrow>
          Some [Html2canvas, ConsoleError ''Failed to export to PDF:'',
                Alert ''An error occurred while exporting to PDF. Please try again.''])"
  using assms
  by (simp add: exportToPDF_def Let_def split: option.splits sum.splits)


lemma exportToPDF_result:
  assumes "map_option snd (exportToPDF rd e d) = Some evs"
  shows "exportToPDF rd e d = Some (d, evs)"
proof -
  from assms obtain d' where "exportToPDF rd e d = Some (d', evs)"
    by (cases "exportToPDF rd e d") auto
  with exportToPDF_page_unchanged[OF this] show ?thesis by simp
qed



text \<open>
  Claim C7: when no 2D context can be acquired the export aborts, one user-facing error is
  surfaced, and no PDF is saved. The code at such an input: the capture is made, the
  callback writes one message to the console and returns normally, so the \<^verbatim>\<open>catch\<close>
  handler does not run; the trace holds no \<open>Alert\<close> and no \<open>Save\<close>, and the page is left
  as it was. A rejected capture, in contrast, reaches the handler and alerts.
\<close>

theorem no_context_logs_without_alert:
  "exportToPDF emptyResume envWithoutContext sampleDom
     = Some (sampleDom, [Html2canvas, ConsoleError ''Could not get 2d context from canvas''])
   \<and> exportToPDF emptyResume envCaptureRejected sampleDom
     = Some (sampleDom, [Html2canvas, ConsoleError ''Failed to export to PDF:'',
                         Alert ''An error occurred while exporting to PDF. Please try again.''])"
proof -
  have a: "resumeContent sampleDom = Some 2" "resumePreview sampleDom = Some 0"
      "parentElement sampleDom 2 = Some 1"
    by (simp_all add: sampleDom_def)
  have t1: "map_option snd (exportToPDF emptyResume envWithoutContext sampleDom)
      = Some [Html2canvas, ConsoleError ''Could not get 2d context from canvas'']"
    unfolding exportToPDF_with_anchors[OF a]
    by (simp add: envWithoutContext_def a4Env_def onCaptured_def Let_def)
  have t2: "map_option snd (exportToPDF emptyResume envCaptureRejected sampleDom)
      = Some [Html2canvas, ConsoleError ''Failed to export to PDF:'',
              Alert ''An error occurred while exporting to PDF. Please try again.'']"
    unfolding exportToPDF_with_anchors[OF a] by (simp add: envCaptureRejected_def)
  show ?thesis
    using exportToPDF_result [OF t1] exportToPDF_result [OF t2] by (rule conjI)
qed

text \<open>
  Claim C8: whenever a required anchor (the content or the preview container) is not
  found, the export logs an error, alerts the user and aborts before any capture. The
  code: without the content element it logs and alerts; with the content element but
  without the preview container it returns with an empty trace, neither logging nor
  alerting. In both cases no capture is attempted.
\<close>

theorem missing_preview_aborts_silently:
  "resumeContent domWithoutPreview = Some 2 \<and> resumePreview domWithoutPreview = None
   \<and> exportToPDF emptyResume a4Env domWithoutPreview = Some (domWithoutPreview, [])
   \<and> resumeContent domWithoutContent = None
   \<and> exportToPDF emptyResume a4Env domWithoutContent
       = Some (domWithoutContent,
               [ConsoleError ''Resume content element not found for PDF export.'',
                Alert ''An error occurred while exporting to PDF.''])"
  by (simp add: exportToPDF_def domWithoutPreview_def domWithoutContent_def sampleDom_def Let_def)

end
